theory Spec2Isabelle
  imports Main "HOL-Library.DAList"
begin

section \<open>The TypeScript worker of the Monaco editor (tsWorker.js)\<close>

text \<open>
  The worker is the language-service host of the TypeScript engine: it presents the
  editor's open documents (mirror models), the bundled declaration files (\<open>libFileMap\<close>)
  and the extra declaration files registered by the user (\<open>_extraLibs\<close>) as one file
  system. The definitions below follow \<^verbatim>\<open>esm/vs/language/typescript/tsWorker.js\<close>
  function by function. A leading underscore of a source name is written \<open>priv_\<close>
  (\<open>_getModel\<close> is \<open>priv_getModel\<close>), and the fields \<open>_ctx\<close>, \<open>_compilerOptions\<close> and
  \<open>_extraLibs\<close> drop it.
\<close>

subsection \<open>JavaScript values\<close>

text \<open>
  A JavaScript object used as a dictionary is the list of its own properties in the
  order \<open>Object.keys\<close> enumerates them, and no key occurs twice: the type
  \<open>(string, 'v) alist\<close>. \<open>k in obj\<close> is \<open>js_in k obj\<close>, \<open>Object.keys(obj)\<close> is
  \<open>Object_keys obj\<close>, and \<open>obj[k]\<close> is \<open>DAList.lookup obj k\<close>, where \<open>None\<close> is
  \<open>undefined\<close>. The two dictionaries of the worker, \<open>libFileMap\<close> and \<open>_extraLibs\<close>, are
  built outside of it; they are taken as mappings from file names, without the
  properties that an object may inherit from a prototype (the worker's own initial
  \<open>_extraLibs\<close> is \<open>Object.create(null)\<close>, which has none).
\<close>

type_synonym 'v js_object = "(string, 'v) alist"

definition js_in :: "string \<Rightarrow> 'v js_object \<Rightarrow> bool" where
  "js_in k obj = (DAList.lookup obj k \<noteq> None)"

definition Object_keys :: "'v js_object \<Rightarrow> string list" where
  "Object_keys obj = map fst (DAList.impl_of obj)"

text \<open>
  Numbers that the worker turns into text are integers (document versions, target
  tiers); \<open>Number_toString\<close> is their decimal notation, as \<open>toString()\<close>, \<open>String(n)\<close>
  and string concatenation give it for every integer that a document version or a
  target tier can be (JavaScript prints an integer in this notation up to \<open>10^21\<close>).
\<close>

definition digit_char :: "nat \<Rightarrow> char" where
  "digit_char d = ''0123456789'' ! d"

function string_of_nat :: "nat \<Rightarrow> string" where
  "string_of_nat n =
     (if n < 10 then [digit_char n] else string_of_nat (n div 10) @ [digit_char (n mod 10)])"
  by pat_completeness auto
termination
  by (relation "measure id") auto

declare string_of_nat.simps [simp del]

definition Number_toString :: "int \<Rightarrow> string" where
  "Number_toString i =
     (if i < 0 then CHR ''-'' # string_of_nat (nat (- i)) else string_of_nat (nat i))"

subsection \<open>The data the worker reads\<close>

text \<open>
  A mirror model is an open document: \<open>model.uri.toString()\<close>, \<open>model.version\<close> and
  \<open>model.getValue()\<close>. The worker context lists them with \<open>getMirrorModels()\<close>.
\<close>

record IMirrorModel =
  uri :: string
  version :: int
  getValue :: string

record IWorkerContext =
  getMirrorModels :: "IMirrorModel list"

text \<open>An entry of \<open>_extraLibs\<close> is \<open>{content, version}\<close>; its version is \<open>lib_version\<close>.\<close>

record IExtraLib =
  content :: string
  lib_version :: int

text \<open>
  Of the compiler options the worker reads \<open>target\<close> (a number of the engine's
  \<open>ScriptTarget\<close> enumeration) and \<open>allowJs\<close>; either may be absent (\<open>None\<close>).
\<close>

record CompilerOptions =
  target :: "int option"
  allowJs :: "bool option"

record TypeScriptWorker =
  ctx :: IWorkerContext
  compilerOptions :: CompilerOptions
  extraLibs :: "IExtraLib js_object"

text \<open>
  \<open>libFileMap\<close> is imported from \<^verbatim>\<open>./lib/lib.js\<close>, a bundle that maps the name of a
  declaration file to its text. Every function that reads it takes it as its first
  argument.
\<close>

type_synonym LibFileMap = "string js_object"

subsection \<open>The language-service host\<close>

definition getCompilationSettings :: "TypeScriptWorker \<Rightarrow> CompilerOptions" where
  "getCompilationSettings this = compilerOptions this"

definition getScriptFileNames :: "TypeScriptWorker \<Rightarrow> string list" where
  "getScriptFileNames this =
     (let models = map (\<lambda>model. uri model) (getMirrorModels (ctx this))
      in models @ Object_keys (extraLibs this))"






subsection \<open>Script kinds\<close>

text \<open>
  \<open>s.lastIndexOf(c)\<close> is the greatest index at which \<open>c\<close> stands in \<open>s\<close>, and \<open>-1\<close> when
  it stands nowhere; \<open>s.substr(start)\<close> is the rest of \<open>s\<close> from \<open>start\<close> on, a negative
  \<open>start\<close> counting from the end.
\<close>

fun lastIndexOf :: "string \<Rightarrow> char \<Rightarrow> int" where
  "lastIndexOf [] c = - 1"
| "lastIndexOf (x # xs) c =
     (let r = lastIndexOf xs c
      in if 0 \<le> r then r + 1 else if x = c then 0 else - 1)"

definition substr :: "string \<Rightarrow> int \<Rightarrow> string" where
  "substr s start =
     (if start < 0 then drop (nat (max 0 (int (length s) + start))) s
      else drop (nat start) s)"

text \<open>The engine's enumeration \<open>ts.ScriptKind\<close>.\<close>

datatype ScriptKind = Unknown | JS | JSX | TS | TSX | External | JSON | Deferred

text \<open>Truthiness of an optional flag: \<open>undefined\<close> and \<open>false\<close> are falsy.\<close>

definition truthy :: "bool option \<Rightarrow> bool" where
  "truthy b = (b = Some True)"

definition getScriptKind :: "TypeScriptWorker \<Rightarrow> string \<Rightarrow> ScriptKind" where
  "getScriptKind this fileName =
     (let suffix = substr fileName (lastIndexOf fileName CHR ''.'' + 1)
      in if suffix = ''ts'' then TS
         else if suffix = ''tsx'' then TSX
         else if suffix = ''js'' then JS
         else if suffix = ''jsx'' then JSX
         else if truthy (allowJs (getCompilationSettings this)) then JS
         else TS)"

definition getCurrentDirectory :: "TypeScriptWorker \<Rightarrow> string" where
  "getCurrentDirectory this = []"

subsection \<open>The default library\<close>

text \<open>
  The \<open>switch\<close> of \<open>getDefaultLibFileName\<close>: \<open>case 99\<close> returns when the ESNext library
  is there and falls through to the \<open>default\<close> block otherwise; the labels 7 to 2 stand on
  the \<open>default\<close> block; 1 and 0 have their own. \<open>options.target || 99\<close> is 99 for an
  absent target and for 0.
\<close>

definition target_or_99 :: "int option \<Rightarrow> int" where
  "target_or_99 t = (case t of None \<Rightarrow> 99 | Some n \<Rightarrow> if n = 0 then 99 else n)"

definition getDefaultLibFileName :: "LibFileMap \<Rightarrow> TypeScriptWorker \<Rightarrow> CompilerOptions \<Rightarrow> string" where
  "getDefaultLibFileName libFileMap this options =
     (let esnext = ''lib.esnext.full.d.ts'';
          eslib = ''lib.es'' @ Number_toString (2013 + target_or_99 (target options)) @ ''.full.d.ts'';
          default_block =
            (if js_in eslib libFileMap \<or> js_in eslib (extraLibs this) then eslib
             else ''lib.es6.d.ts'')
      in case target options of
           None \<Rightarrow> default_block
         | Some t \<Rightarrow>
             if t = 99 then
               (if js_in esnext libFileMap \<or> js_in esnext (extraLibs this) then esnext
                else default_block)
             else if t = 7 \<or> t = 6 \<or> t = 5 \<or> t = 4 \<or> t = 3 \<or> t = 2 then default_block
             else if t = 1 \<or> t = 0 then ''lib.d.ts''
             else default_block)"


definition getLibFiles :: "LibFileMap \<Rightarrow> TypeScriptWorker \<Rightarrow> LibFileMap" where
  "getLibFiles libFileMap this = libFileMap"

subsection \<open>Script versions\<close>


text \<open>\<open>updateExtraLibs\<close> is the one method that assigns to a field of the worker.\<close>

definition updateExtraLibs :: "TypeScriptWorker \<Rightarrow> IExtraLib js_object \<Rightarrow> TypeScriptWorker" where
  "updateExtraLibs this extraLibs' = this\<lparr>extraLibs := extraLibs'\<rparr>"

subsection \<open>Diagnostics\<close>

text \<open>
  \<open>clearFiles\<close> assigns to the objects of the array it is given and returns that array,
  so diagnostics live in a store: an address is a reference to a diagnostic object, and
  the store gives each object its fields. \<open>file\<close> is the reference to the parsed source
  file (\<open>None\<close> is \<open>undefined\<close>), \<open>relatedInformation\<close> the optional array of references
  to related diagnostics, and \<open>other\<close> stands for every field that \<open>clearFiles\<close> neither
  reads nor writes (\<open>start\<close>, \<open>length\<close>, \<open>messageText\<close>, \<open>category\<close>, \<open>code\<close>, ...).
\<close>

type_synonym addr = nat

record ('f, 'a) Diagnostic =
  "file" :: "'f option"
  relatedInformation :: "addr list option"
  other :: 'a

type_synonym ('f, 'a) heap = "addr \<Rightarrow> ('f, 'a) Diagnostic"

text \<open>The assignment \<open>diag.file = undefined\<close>.\<close>

definition clear_file :: "addr \<Rightarrow> ('f, 'a) heap \<Rightarrow> ('f, 'a) heap" where
  "clear_file diag h = h(diag := (h diag)\<lparr>file := None\<rparr>)"

text \<open>
  The callback of the outer \<open>forEach\<close>. \<open>if (related)\<close> holds for every array, the
  empty one too, and fails for \<open>undefined\<close>.
\<close>

definition clearFiles_body :: "addr \<Rightarrow> ('f, 'a) heap \<Rightarrow> ('f, 'a) heap" where
  "clearFiles_body diag h =
     (let h1 = clear_file diag h;
          related = relatedInformation (h1 diag)
      in case related of
           None \<Rightarrow> h1
         | Some rel \<Rightarrow> fold (\<lambda>diag2. clear_file diag2) rel h1)"

definition clearFiles :: "('f, 'a) heap \<Rightarrow> addr list \<Rightarrow> addr list \<times> ('f, 'a) heap" where
  "clearFiles h diagnostics = (diagnostics, fold clearFiles_body diagnostics h)"

text \<open>
  The engine (\<^verbatim>\<open>./lib/typescriptServices.js\<close>) is not part of the worker. Its language
  service is a parameter: each operation reads the engine's own state \<open>'e\<close>, the host
  (the worker) and the store, and either throws or returns its result with the new
  store and engine state. A method of the worker returns \<open>Inr\<close> of the value its
  promise resolves with, and \<open>Inl\<close> of the error the engine threw.
\<close>

datatype Error = Error string

record ('f, 'a, 'e) LanguageService =
  ls_getSyntacticDiagnostics ::
    "'e \<Rightarrow> TypeScriptWorker \<Rightarrow> ('f, 'a) heap \<Rightarrow> string \<Rightarrow> Error + addr list \<times> ('f, 'a) heap \<times> 'e"
  ls_getCompilerOptionsDiagnostics ::
    "'e \<Rightarrow> TypeScriptWorker \<Rightarrow> ('f, 'a) heap \<Rightarrow> Error + addr list \<times> ('f, 'a) heap \<times> 'e"

definition getSyntacticDiagnostics ::
  "('f, 'a, 'e) LanguageService \<Rightarrow> 'e \<Rightarrow> TypeScriptWorker \<Rightarrow> ('f, 'a) heap \<Rightarrow> string
    \<Rightarrow> Error + addr list \<times> ('f, 'a) heap \<times> 'e" where
  "getSyntacticDiagnostics languageService e this h fileName =
     (case ls_getSyntacticDiagnostics languageService e this h fileName of
        Inl err \<Rightarrow> Inl err
      | Inr (diagnostics, h', e') \<Rightarrow>
          (case clearFiles h' diagnostics of (ds, h'') \<Rightarrow> Inr (ds, h'', e')))"

definition getCompilerOptionsDiagnostics ::
  "('f, 'a, 'e) LanguageService \<Rightarrow> 'e \<Rightarrow> TypeScriptWorker \<Rightarrow> ('f, 'a) heap \<Rightarrow> string
    \<Rightarrow> Error + addr list \<times> ('f, 'a) heap \<times> 'e" where
  "getCompilerOptionsDiagnostics languageService e this h fileName =
     (case ls_getCompilerOptionsDiagnostics languageService e this h of
        Inl err \<Rightarrow> Inl err
      | Inr (diagnostics, h', e') \<Rightarrow>
          (case clearFiles h' diagnostics of (ds, h'') \<Rightarrow> Inr (ds, h'', e')))"

subsection \<open>The factory\<close>

text \<open>
  The creation payload. Its fields \<open>compilerOptions\<close> and \<open>extraLibs\<close> are
  \<open>cd_compilerOptions\<close> and \<open>cd_extraLibs\<close> here, the names without prefix being the
  worker's fields. \<open>customWorkerPath\<close> is optional.
\<close>

record ICreateData =
  cd_compilerOptions :: CompilerOptions
  cd_extraLibs :: "IExtraLib js_object"
  customWorkerPath :: "string option"

text \<open>The constructor \<open>new TypeScriptWorker(ctx, createData)\<close>.\<close>

definition TypeScriptWorker_new :: "IWorkerContext \<Rightarrow> ICreateData \<Rightarrow> TypeScriptWorker" where
  "TypeScriptWorker_new ctx' createData =
     \<lparr>ctx = ctx', compilerOptions = cd_compilerOptions createData,
      extraLibs = cd_extraLibs createData\<rparr>"

text \<open>
  What \<open>create\<close> returns is an instance of the default class or of a class that a custom
  script supplied. A class is its constructor, which may throw. The factory that a
  custom script leaves in \<open>self.customTSWorkerFactory\<close> is called with the default class,
  the engine and \<open>libFileMap\<close>, of which only \<open>libFileMap\<close> varies.
\<close>

datatype 'w worker_instance = Default_instance TypeScriptWorker | Custom_instance 'w

type_synonym 'w TSWorkerClass = "IWorkerContext \<Rightarrow> ICreateData \<Rightarrow> Error + 'w worker_instance"

text \<open>
  The global scope \<open>self\<close> of the worker: the slot \<open>customTSWorkerFactory\<close> (\<open>None\<close> while
  nothing truthy is stored there) and the lines written with \<open>console.warn\<close>.
\<close>

record 'w WorkerGlobalScope =
  customTSWorkerFactory :: "(LibFileMap \<Rightarrow> Error + 'w TSWorkerClass) option"
  console :: "string list"

text \<open>
  \<open>importScripts\<close> is \<open>None\<close> where \<open>typeof importScripts === 'undefined'\<close>; otherwise it
  runs the script at a path on the global scope, and throws or leaves a new scope. A
  path is truthy when it is present and not the empty string.
\<close>

type_synonym 'w ImportScripts =
  "(string \<Rightarrow> 'w WorkerGlobalScope \<Rightarrow> Error + 'w WorkerGlobalScope) option"

definition webworker_warning :: string where
  "webworker_warning =
     ''Monaco is not using webworkers for background tasks, and that is needed to support the customWorkerPath flag''"

definition create ::
  "'w ImportScripts \<Rightarrow> 'w WorkerGlobalScope \<Rightarrow> LibFileMap \<Rightarrow> IWorkerContext \<Rightarrow> ICreateData
    \<Rightarrow> (Error + 'w worker_instance) \<times> 'w WorkerGlobalScope" where
  "create importScripts self libFileMap ctx' createData =
     (case customWorkerPath createData of
        None \<Rightarrow> (Inr (Default_instance (TypeScriptWorker_new ctx' createData)), self)
      | Some path \<Rightarrow>
          if path = [] then (Inr (Default_instance (TypeScriptWorker_new ctx' createData)), self)
          else
            (case importScripts of
               None \<Rightarrow>
                 (Inr (Default_instance (TypeScriptWorker_new ctx' createData)),
                  self\<lparr>console := console self @ [webworker_warning]\<rparr>)
             | Some run \<Rightarrow>
                 (case run path self of
                    Inl err \<Rightarrow> (Inl err, self)
                  | Inr self' \<Rightarrow>
                      (case customTSWorkerFactory self' of
                         None \<Rightarrow>
                           (Inl (Error (''The script at '' @ path @
                              '' does not add customTSWorkerFactory to self'')), self')
                       | Some workerFactoryFunc \<Rightarrow>
                           (case workerFactoryFunc libFileMap of
                              Inl err \<Rightarrow> (Inl err, self')
                            | Inr TSWorkerClass \<Rightarrow> (TSWorkerClass ctx' createData, self'))))))"

subsection \<open>The vocabulary of the specification\<close>

text \<open>
  The specification speaks of a name being present in the Lib Registry or the Extra-Lib
  Registry, and of the year-qualified name of a target tier: tier \<open>n\<close> is year
  \<open>2013 + n\<close>. These two definitions follow its words, not the source.
\<close>

definition in_registries :: "LibFileMap \<Rightarrow> TypeScriptWorker \<Rightarrow> string \<Rightarrow> bool" where
  "in_registries libFileMap this name =
     (name \<in> set (Object_keys libFileMap) \<union> set (Object_keys (extraLibs this)))"

definition year_lib :: "int \<Rightarrow> string" where
  "year_lib n = ''lib.es'' @ Number_toString (2013 + n) @ ''.full.d.ts''"

subsection \<open>The objects that \<open>clearFiles\<close> reaches\<close>

text \<open>
  For the proofs: the related entries of a diagnostic, the addresses that \<open>clearFiles\<close>
  assigns to (the diagnostics of the array and their related entries), and the store
  with \<open>file\<close> cleared on a set of addresses.
\<close>

definition related_of :: "('f, 'a) heap \<Rightarrow> addr \<Rightarrow> addr set" where
  "related_of h d = (case relatedInformation (h d) of None \<Rightarrow> {} | Some rel \<Rightarrow> set rel)"

definition reached :: "('f, 'a) heap \<Rightarrow> addr list \<Rightarrow> addr set" where
  "reached h ds = set ds \<union> (\<Union>d \<in> set ds. related_of h d)"

definition clear_on :: "addr set \<Rightarrow> ('f, 'a) heap \<Rightarrow> ('f, 'a) heap" where
  "clear_on A h = (\<lambda>a. if a \<in> A then (h a)\<lparr>file := None\<rparr> else h a)"

subsection \<open>Example states\<close>

definition lib0 :: LibFileMap where
  "lib0 =
     DAList.update ''lib.es2017.full.d.ts'' ''declare var es2017: any''
       (DAList.update ''lib.es6.d.ts'' ''declare var es6: any''
         (DAList.update ''lib.d.ts'' ''declare var es5: any'' DAList.empty))"

definition worker0 :: TypeScriptWorker where
  "worker0 =
     \<lparr>ctx = \<lparr>getMirrorModels =
        [\<lparr>uri = ''file:///a.ts'', version = 3, getValue = ''let a = 1''\<rparr>,
         \<lparr>uri = ''file:///b.js'', version = 12, getValue = ''var b''\<rparr>]\<rparr>,
      compilerOptions = \<lparr>target = Some 4, allowJs = None\<rparr>,
      extraLibs =
        DAList.update ''lib.d.ts'' \<lparr>content = ''declare var shadowed: any'', lib_version = 2\<rparr>
          (DAList.update ''extra.d.ts'' \<lparr>content = ''declare var x: any'', lib_version = 7\<rparr>
            DAList.empty)\<rparr>"

text \<open>A worker whose extra libraries hold the ESNext library.\<close>

definition worker_esnext :: TypeScriptWorker where
  "worker_esnext =
     \<lparr>ctx = \<lparr>getMirrorModels = []\<rparr>,
      compilerOptions = \<lparr>target = Some 99, allowJs = Some True\<rparr>,
      extraLibs =
        DAList.update ''lib.esnext.full.d.ts'' \<lparr>content = ''declare var next: any'', lib_version = 1\<rparr>
          DAList.empty\<rparr>"

text \<open>A worker with an open document and an extra library of the same name.\<close>

definition worker_dup :: TypeScriptWorker where
  "worker_dup =
     \<lparr>ctx = \<lparr>getMirrorModels =
        [\<lparr>uri = ''file:///a.ts'', version = 1, getValue = ''let a = 1''\<rparr>]\<rparr>,
      compilerOptions = \<lparr>target = None, allowJs = None\<rparr>,
      extraLibs =
        DAList.update ''file:///a.ts'' \<lparr>content = ''declare var a: any'', lib_version = 1\<rparr>
          DAList.empty\<rparr>"

text \<open>
  A store with four diagnostics: 0 has the related entries 1 and 2, 3 has an empty
  related list, 1 and 2 (and every other address) have none.
\<close>

definition heap0 :: "(string, nat) heap" where
  "heap0 =
     (\<lambda>a. \<lparr>file = Some ''a.ts'', relatedInformation = None, other = a\<rparr>)
       (0 := \<lparr>file = Some ''a.ts'', relatedInformation = Some [1, 2], other = 2322\<rparr>,
        3 := \<lparr>file = Some ''b.js'', relatedInformation = Some [], other = 1005\<rparr>)"

text \<open>A creation payload that names a custom worker, and a global scope with an empty slot.\<close>

definition createData0 :: ICreateData where
  "createData0 =
     \<lparr>cd_compilerOptions = \<lparr>target = Some 4, allowJs = None\<rparr>,
      cd_extraLibs = DAList.empty, customWorkerPath = Some ''custom.js''\<rparr>"

definition self0 :: "unit WorkerGlobalScope" where
  "self0 = \<lparr>customTSWorkerFactory = None, console = []\<rparr>"

text \<open>A script that runs and registers nothing.\<close>

definition idle_script :: "string \<Rightarrow> unit WorkerGlobalScope \<Rightarrow> Error + unit WorkerGlobalScope" where
  "idle_script path self = Inr (self\<lparr>console := console self @ [''loaded '' @ path]\<rparr>)"

section \<open>Properties\<close>

subsection \<open>Finding a mirror model\<close>



subsection \<open>Keys of an object\<close>

lemma set_Object_keys: "set (Object_keys obj) = {k. js_in k obj}"
  by (auto simp: Object_keys_def js_in_def DAList.lookup.rep_eq
      dom_map_of_conv_image_fst [symmetric])

lemma distinct_Object_keys: "distinct (Object_keys obj)"
  by (simp add: Object_keys_def)

lemma in_registries_iff:
  "in_registries libFileMap this name \<longleftrightarrow> js_in name libFileMap \<or> js_in name (extraLibs this)"
  by (simp add: in_registries_def set_Object_keys)

subsection \<open>Text resolution\<close>



subsection \<open>The default library\<close>

lemma year_lib_4: "year_lib 4 = ''lib.es2017.full.d.ts''"
  by (simp add: year_lib_def Number_toString_def string_of_nat.simps digit_char_def)

lemma year_lib_5: "year_lib 5 = ''lib.es2018.full.d.ts''"
  by (simp add: year_lib_def Number_toString_def string_of_nat.simps digit_char_def)

lemma year_lib_99: "year_lib 99 = ''lib.es2112.full.d.ts''"
  by (simp add: year_lib_def Number_toString_def string_of_nat.simps digit_char_def)

text \<open>
  C2. \<open>getDefaultLibFileName\<close> returns \<open>"lib.d.ts"\<close> for the targets 0 and 1, whatever the
  registries hold; \<open>"lib.esnext.full.d.ts"\<close> for the target 99 when that name is in
  \<open>libFileMap\<close> or the extra libraries; and otherwise the year-qualified name
  \<open>"lib.es" + (2013 + target) + ".full.d.ts"\<close> when that name is in either registry, else
  \<open>"lib.es6.d.ts"\<close>. Options without a target are resolved as the last case with the
  target 99.
\<close>

theorem getDefaultLibFileName_tiers:
  "(target options = Some 0 \<or> target options = Some 1 \<longrightarrow>
      getDefaultLibFileName libFileMap this options = ''lib.d.ts'')
   \<and> (target options = Some 99 \<and> in_registries libFileMap this ''lib.esnext.full.d.ts'' \<longrightarrow>
      getDefaultLibFileName libFileMap this options = ''lib.esnext.full.d.ts'')
   \<and> (target options = Some t \<and> t \<noteq> 0 \<and> t \<noteq> 1
        \<and> \<not> (t = 99 \<and> in_registries libFileMap this ''lib.esnext.full.d.ts'') \<longrightarrow>
      getDefaultLibFileName libFileMap this options =
        (if in_registries libFileMap this (year_lib t) then year_lib t else ''lib.es6.d.ts''))
   \<and> (target options = None \<longrightarrow>
      getDefaultLibFileName libFileMap this options =
        (if in_registries libFileMap this (year_lib 99) then year_lib 99 else ''lib.es6.d.ts''))"
  by (auto simp: getDefaultLibFileName_def in_registries_iff year_lib_def target_or_99_def
      Let_def)

text \<open>
  On \<open>lib0\<close>, which holds the library of 2017 and not that of 2018 or 2112: the tiers 1,
  4, 5, 99 without and with the ESNext library, and absent.
\<close>

theorem getDefaultLibFileName_tiers_witness:
  "getDefaultLibFileName lib0 worker0 \<lparr>target = Some 1, allowJs = None\<rparr> = ''lib.d.ts''
   \<and> in_registries lib0 worker0 (year_lib 4)
   \<and> getDefaultLibFileName lib0 worker0 \<lparr>target = Some 4, allowJs = None\<rparr> = ''lib.es2017.full.d.ts''
   \<and> \<not> in_registries lib0 worker0 (year_lib 5)
   \<and> getDefaultLibFileName lib0 worker0 \<lparr>target = Some 5, allowJs = None\<rparr> = ''lib.es6.d.ts''
   \<and> \<not> in_registries lib0 worker0 ''lib.esnext.full.d.ts''
   \<and> getDefaultLibFileName lib0 worker0 \<lparr>target = Some 99, allowJs = None\<rparr> = ''lib.es6.d.ts''
   \<and> in_registries lib0 worker_esnext ''lib.esnext.full.d.ts''
   \<and> getDefaultLibFileName lib0 worker_esnext \<lparr>target = Some 99, allowJs = None\<rparr> =
        ''lib.esnext.full.d.ts''
   \<and> getDefaultLibFileName lib0 worker_esnext \<lparr>target = None, allowJs = None\<rparr> = ''lib.es6.d.ts''"
  using getDefaultLibFileName_tiers [of "\<lparr>target = Some 1, allowJs = None\<rparr>" lib0 worker0 1]
    getDefaultLibFileName_tiers [of "\<lparr>target = Some 4, allowJs = None\<rparr>" lib0 worker0 4]
    getDefaultLibFileName_tiers [of "\<lparr>target = Some 5, allowJs = None\<rparr>" lib0 worker0 5]
    getDefaultLibFileName_tiers [of "\<lparr>target = Some 99, allowJs = None\<rparr>" lib0 worker0 99]
    getDefaultLibFileName_tiers [of "\<lparr>target = Some 99, allowJs = None\<rparr>" lib0 worker_esnext 99]
    getDefaultLibFileName_tiers [of "\<lparr>target = None, allowJs = None\<rparr>" lib0 worker_esnext 99]
  by (simp add: in_registries_iff js_in_def lib0_def worker0_def worker_esnext_def
      year_lib_4 year_lib_5 year_lib_99)



subsection \<open>Script versions\<close>



subsection \<open>Script file names\<close>

text \<open>
  C4, as stated, fails: the names of \<open>getScriptFileNames\<close> can repeat. On \<open>worker_dup\<close>
  the open document \<open>file:///a.ts\<close> and the extra library of the same name are both
  listed.
\<close>

theorem getScriptFileNames_duplicate:
  "getScriptFileNames worker_dup = [''file:///a.ts'', ''file:///a.ts'']
   \<and> \<not> distinct (getScriptFileNames worker_dup)"
  by (simp add: getScriptFileNames_def worker_dup_def Object_keys_def DAList.update.rep_eq
      DAList.empty.rep_eq)

text \<open>
  C4, amended. \<open>getScriptFileNames\<close> returns the URIs of the mirror models in the order of
  the directory, followed by the keys of the extra libraries in the order of the
  registry, computed from the current state on every call (after \<open>updateExtraLibs\<close> the
  new keys are listed). Its entries are the union of the two. Nothing is removed: the
  list is free of duplicates exactly when the URIs are pairwise distinct and none of
  them is a key of the extra libraries.
\<close>

theorem getScriptFileNames_concat:
  "getScriptFileNames this = map uri (getMirrorModels (ctx this)) @ Object_keys (extraLibs this)
   \<and> set (getScriptFileNames this) =
        uri ` set (getMirrorModels (ctx this)) \<union> {k. js_in k (extraLibs this)}
   \<and> (distinct (getScriptFileNames this) \<longleftrightarrow>
        distinct (map uri (getMirrorModels (ctx this)))
        \<and> uri ` set (getMirrorModels (ctx this)) \<inter> {k. js_in k (extraLibs this)} = {})
   \<and> getScriptFileNames (updateExtraLibs this libs) =
        map uri (getMirrorModels (ctx this)) @ Object_keys libs"
  using set_Object_keys [of "extraLibs this"] distinct_Object_keys [of "extraLibs this"]
  by (auto simp: getScriptFileNames_def updateExtraLibs_def)

subsection \<open>Script kinds\<close>

lemma lastIndexOf_bounds: "- 1 \<le> lastIndexOf s c \<and> lastIndexOf s c < int (length s)"
  by (induction s) (auto simp: Let_def)

lemma lastIndexOf_absent: "c \<notin> set s \<Longrightarrow> lastIndexOf s c = - 1"
  by (induction s) (auto simp: Let_def)

lemma lastIndexOf_last: "c \<notin> set ext \<Longrightarrow> lastIndexOf (base @ c # ext) c = int (length base)"
  by (induction base) (auto simp: Let_def lastIndexOf_absent)

lemma suffix_after_last_dot:
  "c \<notin> set ext \<Longrightarrow> substr (base @ c # ext) (lastIndexOf (base @ c # ext) c + 1) = ext"
  by (simp add: lastIndexOf_last substr_def nat_add_distrib)

lemma suffix_without_dot: "c \<notin> set name \<Longrightarrow> substr name (lastIndexOf name c + 1) = name"
  by (simp add: lastIndexOf_absent substr_def)

text \<open>
  A name with a dot is classified by what follows its last dot, as C7 says.
\<close>

lemma getScriptKind_dotted:
  "CHR ''.'' \<notin> set ext \<Longrightarrow>
   getScriptKind this (base @ CHR ''.'' # ext) =
     (if ext = ''ts'' then TS else if ext = ''tsx'' then TSX
      else if ext = ''js'' then JS else if ext = ''jsx'' then JSX
      else if allowJs (compilerOptions this) = Some True then JS else TS)"
  by (simp add: getScriptKind_def suffix_after_last_dot truthy_def getCompilationSettings_def
      del: lastIndexOf.simps)

text \<open>
  A name without a dot is compared as a whole with the four extensions:
  \<open>lastIndexOf\<close> is \<open>-1\<close> there, and \<open>substr(0)\<close> is the whole name.
\<close>

lemma getScriptKind_undotted:
  "CHR ''.'' \<notin> set name \<Longrightarrow>
   getScriptKind this name =
     (if name = ''ts'' then TS else if name = ''tsx'' then TSX
      else if name = ''js'' then JS else if name = ''jsx'' then JSX
      else if allowJs (compilerOptions this) = Some True then JS else TS)"
  by (simp add: getScriptKind_def suffix_without_dot truthy_def getCompilationSettings_def
      del: lastIndexOf.simps)

text \<open>
  C7 asks for \<open>TS\<close> on a file name without an extension when \<open>allowJs\<close> is not set.
  On \<open>worker0\<close>, where \<open>allowJs\<close> is absent, the file names \<open>js\<close> and \<open>jsx\<close> have no
  extension, and \<open>getScriptKind\<close> returns \<open>JS\<close> and \<open>JSX\<close>.
\<close>

theorem getScriptKind_bare_name:
  "allowJs (getCompilationSettings worker0) = None
   \<and> lastIndexOf ''js'' CHR ''.'' = - 1
   \<and> getScriptKind worker0 ''js'' = JS
   \<and> getScriptKind worker0 ''jsx'' = JSX"
  by (simp add: getScriptKind_def substr_def truthy_def getCompilationSettings_def worker0_def)

subsection \<open>Diagnostics\<close>

lemma fold_clear_file: "fold clear_file xs h = clear_on (set xs) h"
  by (induction xs arbitrary: h) (auto simp: clear_on_def clear_file_def fun_eq_iff)

lemma clearFiles_body_clear_on: "clearFiles_body d h = clear_on (insert d (related_of h d)) h"
  by (auto simp: clearFiles_body_def related_of_def fold_clear_file clear_on_def clear_file_def
      fun_eq_iff Let_def split: option.splits)

lemma related_of_clear_on [simp]: "related_of (clear_on A h) d = related_of h d"
  by (simp add: related_of_def clear_on_def)

lemma clear_on_clear_on: "clear_on A (clear_on B h) = clear_on (A \<union> B) h"
  by (auto simp: clear_on_def fun_eq_iff)

lemma reached_clear_on [simp]: "reached (clear_on A h) ds = reached h ds"
  by (simp add: reached_def)

lemma fold_clearFiles_body: "fold clearFiles_body ds h = clear_on (reached h ds) h"
proof (induction ds arbitrary: h)
  case Nil
  show ?case by (simp add: reached_def clear_on_def)
next
  case (Cons d ds)
  have "fold clearFiles_body (d # ds) h =
        fold clearFiles_body ds (clear_on (insert d (related_of h d)) h)"
    by (simp add: clearFiles_body_clear_on)
  also have "\<dots> = clear_on (reached h ds) (clear_on (insert d (related_of h d)) h)"
    by (simp add: Cons.IH)
  also have "\<dots> = clear_on (reached h (d # ds)) h"
    by (simp add: clear_on_clear_on reached_def Un_ac)
  finally show ?case .
qed

lemma clearFiles_heap: "snd (clearFiles h ds) = clear_on (reached h ds) h"
  by (simp add: clearFiles_def fold_clearFiles_body)

text \<open>
  C5. Applying \<open>clearFiles\<close> to its own result changes nothing more. After one
  application \<open>file\<close> is cleared on every diagnostic of the array and on every entry of
  its related list, when it has one. A diagnostic whose related list is absent or empty
  is handled as any other: its own \<open>file\<close> is cleared and the array is returned.
\<close>

theorem clearFiles_idempotent:
  "clearFiles (snd (clearFiles h ds)) (fst (clearFiles h ds)) = clearFiles h ds
   \<and> (\<forall>d \<in> set ds. file (snd (clearFiles h ds) d) = None
        \<and> (\<forall>rel. relatedInformation (snd (clearFiles h ds) d) = Some rel \<longrightarrow>
              (\<forall>d2 \<in> set rel. file (snd (clearFiles h ds) d2) = None)))
   \<and> (relatedInformation (h d) = None \<or> relatedInformation (h d) = Some [] \<longrightarrow>
        clearFiles h [d] = ([d], h(d := (h d)\<lparr>file := None\<rparr>)))"
proof (intro conjI)
  have "fold clearFiles_body ds (clear_on (reached h ds) h) = clear_on (reached h ds) h"
    by (simp add: fold_clearFiles_body clear_on_clear_on)
  then show "clearFiles (snd (clearFiles h ds)) (fst (clearFiles h ds)) = clearFiles h ds"
    by (simp add: clearFiles_def fold_clearFiles_body)
next
  show "\<forall>d \<in> set ds. file (snd (clearFiles h ds) d) = None
        \<and> (\<forall>rel. relatedInformation (snd (clearFiles h ds) d) = Some rel \<longrightarrow>
              (\<forall>d2 \<in> set rel. file (snd (clearFiles h ds) d2) = None))"
    by (auto simp: clearFiles_heap clear_on_def reached_def related_of_def split: if_splits)
next
  show "relatedInformation (h d) = None \<or> relatedInformation (h d) = Some [] \<longrightarrow>
        clearFiles h [d] = ([d], h(d := (h d)\<lparr>file := None\<rparr>))"
    by (auto simp: clearFiles_def clearFiles_body_def clear_file_def)
qed

text \<open>
  On \<open>heap0\<close>: diagnostic 0 with the related entries 1 and 2, diagnostic 3 with an empty
  related list, diagnostic 1 with none.
\<close>

theorem clearFiles_idempotent_witness:
  "file (heap0 1) = Some ''a.ts''
   \<and> relatedInformation (snd (clearFiles heap0 [0, 3]) 0) = Some [1, 2]
   \<and> file (snd (clearFiles heap0 [0, 3]) 0) = None
   \<and> file (snd (clearFiles heap0 [0, 3]) 1) = None
   \<and> file (snd (clearFiles heap0 [0, 3]) 2) = None
   \<and> file (snd (clearFiles heap0 [0, 3]) 3) = None
   \<and> clearFiles (snd (clearFiles heap0 [0, 3])) [0, 3] = clearFiles heap0 [0, 3]
   \<and> relatedInformation (heap0 3) = Some []
   \<and> clearFiles heap0 [3] = ([3], heap0(3 := (heap0 3)\<lparr>file := None\<rparr>))
   \<and> relatedInformation (heap0 1) = None
   \<and> clearFiles heap0 [1] = ([1], heap0(1 := (heap0 1)\<lparr>file := None\<rparr>))"
proof -
  have r: "relatedInformation (snd (clearFiles heap0 [0, 3]) 0) = Some [1, 2]"
    by (simp add: clearFiles_heap clear_on_def heap0_def)
  have f: "fst (clearFiles heap0 [0, 3]) = [0, 3]"
    by (simp add: clearFiles_def)
  show ?thesis
    using clearFiles_idempotent [of heap0 "[0, 3]" 3] clearFiles_idempotent [of heap0 "[0, 3]" 1] r f
    by (simp add: heap0_def)
qed

text \<open>
  C6. \<open>clearFiles\<close> returns the array it was given, so its length and order are
  unchanged, and on every object of the store, a diagnostic, a related entry or any
  other, it leaves every field but \<open>file\<close> as it was: the object is unchanged, or it is
  the old object with \<open>file\<close> cleared.
\<close>

theorem clearFiles_frame:
  "fst (clearFiles h ds) = ds
   \<and> other (snd (clearFiles h ds) a) = other (h a)
   \<and> relatedInformation (snd (clearFiles h ds) a) = relatedInformation (h a)
   \<and> (snd (clearFiles h ds) a = h a \<or> snd (clearFiles h ds) a = (h a)\<lparr>file := None\<rparr>)"
  by (simp add: clearFiles_heap clear_on_def) (simp add: clearFiles_def)

text \<open>
  C10. \<open>getCompilerOptionsDiagnostics\<close> does not read its file name: from the same
  engine state, worker and store, the calls for any two file names return the same
  result.
\<close>

theorem getCompilerOptionsDiagnostics_ignores_fileName:
  "getCompilerOptionsDiagnostics languageService e this h fileName1 =
   getCompilerOptionsDiagnostics languageService e this h fileName2"
  by (simp add: getCompilerOptionsDiagnostics_def)

text \<open>
  The sibling \<open>getSyntacticDiagnostics\<close> does pass its file name on: with an engine that
  reports one diagnostic for \<open>file:///a.ts\<close> and none elsewhere, two file names give
  two results.
\<close>

lemma getSyntacticDiagnostics_reads_fileName:
  "getSyntacticDiagnostics
     \<lparr>ls_getSyntacticDiagnostics =
        (\<lambda>e this h fileName. if fileName = ''file:///a.ts'' then Inr ([0], h, e) else Inr ([], h, e)),
      ls_getCompilerOptionsDiagnostics = (\<lambda>e this h. Inr ([], h, e))\<rparr>
     () worker0 heap0 ''file:///a.ts''
   \<noteq> getSyntacticDiagnostics
     \<lparr>ls_getSyntacticDiagnostics =
        (\<lambda>e this h fileName. if fileName = ''file:///a.ts'' then Inr ([0], h, e) else Inr ([], h, e)),
      ls_getCompilerOptionsDiagnostics = (\<lambda>e this h. Inr ([], h, e))\<rparr>
     () worker0 heap0 ''file:///b.js''"
  by (simp add: getSyntacticDiagnostics_def clearFiles_def)

subsection \<open>The factory\<close>

text \<open>
  C8, as stated, fails where \<open>importScripts\<close> is not defined: the payload names a custom
  worker and the slot \<open>customTSWorkerFactory\<close> is empty, yet nothing is executed and
  nothing is thrown; \<open>create\<close> writes a warning and returns a default worker.
\<close>

theorem create_without_importScripts:
  "customWorkerPath createData0 = Some ''custom.js''
   \<and> customTSWorkerFactory self0 = None
   \<and> create None self0 lib0 \<lparr>getMirrorModels = []\<rparr> createData0 =
       (Inr (Default_instance (TypeScriptWorker_new \<lparr>getMirrorModels = []\<rparr> createData0)),
        self0\<lparr>console := [webworker_warning]\<rparr>)"
  by (simp add: create_def createData0_def self0_def)

text \<open>
  C8, amended. For a payload with a non-empty \<open>customWorkerPath\<close>: where
  \<open>importScripts\<close> is defined, \<open>create\<close> runs the script, and throws when the slot
  \<open>customTSWorkerFactory\<close> is still empty after the script has run; where
  \<open>importScripts\<close> is not defined, it runs nothing, writes a warning and constructs the
  default worker. For a payload without \<open>customWorkerPath\<close> (or with the empty string)
  it constructs the default worker and touches nothing else.
\<close>

theorem create_custom_worker:
  "(customWorkerPath createData = Some path \<and> path \<noteq> [] \<and> importScripts = Some run
      \<and> run path self = Inr self' \<and> customTSWorkerFactory self' = None \<longrightarrow>
      create importScripts self libFileMap c createData =
        (Inl (Error (''The script at '' @ path @ '' does not add customTSWorkerFactory to self'')), self'))
   \<and> (customWorkerPath createData = Some path \<and> path \<noteq> [] \<and> importScripts = None \<longrightarrow>
      create importScripts self libFileMap c createData =
        (Inr (Default_instance (TypeScriptWorker_new c createData)),
         self\<lparr>console := console self @ [webworker_warning]\<rparr>))
   \<and> (customWorkerPath createData = None \<or> customWorkerPath createData = Some [] \<longrightarrow>
      create importScripts self libFileMap c createData =
        (Inr (Default_instance (TypeScriptWorker_new c createData)), self))"
  by (auto simp: create_def)

text \<open>
  With \<open>idle_script\<close>, which runs and registers nothing, \<open>create\<close> throws after the
  script has run; without a path it returns the default worker.
\<close>

theorem create_custom_worker_witness:
  "customWorkerPath createData0 = Some ''custom.js''
   \<and> idle_script ''custom.js'' self0 = Inr (self0\<lparr>console := [''loaded custom.js'']\<rparr>)
   \<and> customTSWorkerFactory (self0\<lparr>console := [''loaded custom.js'']\<rparr>) = None
   \<and> create (Some idle_script) self0 lib0 \<lparr>getMirrorModels = []\<rparr> createData0 =
       (Inl (Error ''The script at custom.js does not add customTSWorkerFactory to self''),
        self0\<lparr>console := [''loaded custom.js'']\<rparr>)
   \<and> customWorkerPath (createData0\<lparr>customWorkerPath := None\<rparr>) = None
   \<and> create (Some idle_script) self0 lib0 \<lparr>getMirrorModels = []\<rparr>
         (createData0\<lparr>customWorkerPath := None\<rparr>) =
       (Inr (Default_instance
          (TypeScriptWorker_new \<lparr>getMirrorModels = []\<rparr> (createData0\<lparr>customWorkerPath := None\<rparr>))),
        self0)"
proof -
  have s: "idle_script ''custom.js'' self0 = Inr (self0\<lparr>console := [''loaded custom.js'']\<rparr>)"
    by (simp add: idle_script_def self0_def)
  have p: "customWorkerPath createData0 = Some ''custom.js''"
    by (simp add: createData0_def)
  have e: "customTSWorkerFactory (self0\<lparr>console := [''loaded custom.js'']\<rparr>) = None"
    by (simp add: self0_def)
  show ?thesis
    using create_custom_worker [of createData0 "''custom.js''" "Some idle_script" idle_script self0
        "self0\<lparr>console := [''loaded custom.js'']\<rparr>" lib0 "\<lparr>getMirrorModels = []\<rparr>"]
      create_custom_worker [of "createData0\<lparr>customWorkerPath := None\<rparr>" "''custom.js''"
        "Some idle_script" idle_script self0 self0 lib0 "\<lparr>getMirrorModels = []\<rparr>"]
      s p e
    by simp
qed

end
